theory Spec2Isabelle
  imports Main "HOL-Library.AList" "HOL-Library.Word"
begin

section \<open>JavaScript strings, numbers and truthiness\<close>

text \<open>
  Host names, record names and URLs are JavaScript strings; they are modelled as
  \<^typ>\<open>string\<close>. A property that may be \<open>undefined\<close> is an \<open>option\<close>, with
  \<open>None\<close> for \<open>undefined\<close>. The operator \<open>||\<close> and the conditions of \<open>if\<close> test
  truthiness: \<open>undefined\<close> and the empty string are falsy, as is the number 0.
\<close>

definition truthy_str :: "string option \<Rightarrow> bool" where
  "truthy_str v = (case v of None \<Rightarrow> False | Some s \<Rightarrow> s \<noteq> [])"

definition truthy_num :: "int option \<Rightarrow> bool" where
  "truthy_num v = (case v of None \<Rightarrow> False | Some n \<Rightarrow> n \<noteq> 0)"

text \<open>\<open>a || b\<close> on strings and on numbers.\<close>

definition or_str :: "string option \<Rightarrow> string \<Rightarrow> string" where
  "or_str v dflt = (if truthy_str v then the v else dflt)"

definition or_num :: "int option \<Rightarrow> int \<Rightarrow> int" where
  "or_num v dflt = (if truthy_num v then the v else dflt)"

text \<open>\<open>String.prototype.includes\<close>: does the pattern occur as a contiguous substring.\<close>

definition starts_with :: "string \<Rightarrow> string \<Rightarrow> bool" where
  "starts_with s p = (take (length p) s = p)"

fun str_includes :: "string \<Rightarrow> string \<Rightarrow> bool" where
  "str_includes [] p = (p = [])"
| "str_includes (c # s) p = (starts_with (c # s) p \<or> str_includes s p)"

text \<open>The decimal rendering of an integer inside a template literal.\<close>

definition digit_char :: "nat \<Rightarrow> char" where
  "digit_char n = ''0123456789'' ! (n mod 10)"

fun string_of_nat :: "nat \<Rightarrow> string" where
  "string_of_nat n =
     (if n < 10 then [digit_char n]
      else string_of_nat (n div 10) @ [digit_char (n mod 10)])"

declare string_of_nat.simps [simp del]

definition string_of_int :: "int \<Rightarrow> string" where
  "string_of_int i = (if i < 0 then CHR ''-'' # string_of_nat (nat (- i)) else string_of_nat (nat i))"

text \<open>A template literal renders \<open>undefined\<close> as the text \<open>undefined\<close>.\<close>

definition template_str :: "string option \<Rightarrow> string" where
  "template_str v = (case v of None \<Rightarrow> ''undefined'' | Some s \<Rightarrow> s)"

section \<open>DeviceDiscovery\<close>

subsection \<open>Data\<close>

text \<open>
  A record of an mDNS response, as the decoder hands it over: a name, a type tag
  (\<open>A\<close>, \<open>PTR\<close>, \<open>TXT\<close>, ...) and its data. The data of an \<open>A\<close> record is the
  dotted address as a string; the payload of a \<open>TXT\<close> record is kept as a string as well.
\<close>

record mrecord =
  rname :: "string option"
  rtype :: string
  rdata :: "string option"

text \<open>A response carries two record lists, either of which may be missing.\<close>

record response =
  answers :: "mrecord list option"
  additionals :: "mrecord list option"

text \<open>The device object built by \<open>_extractDeviceInfo\<close> and by the \<open>A\<close>-record branch.\<close>

record device =
  d_name :: "string option"
  d_type :: "string option"
  d_port :: "int option"
  d_ip :: "string option"
  d_text :: "string option"

text \<open>The object returned by \<open>_normalizeDevice\<close>.\<close>

record normalized =
  n_ip :: "string option"
  n_name :: string
  n_port :: int
  n_type :: string
  n_url :: string

subsection \<open>The session map\<close>

text \<open>
  \<open>discoveredMap\<close> is a JavaScript \<open>Map\<close> from address to device. It keeps insertion
  order: \<open>set\<close> on a key already present replaces the value in place, \<open>set\<close> on a new
  key appends. It is an association list here.
\<close>

type_synonym dmap = "(string \<times> device) list"

definition Map_set :: "string \<Rightarrow> device \<Rightarrow> dmap \<Rightarrow> dmap" where
  "Map_set k v m = AList.update k v m"

definition Map_has :: "string \<Rightarrow> dmap \<Rightarrow> bool" where
  "Map_has k m = (k \<in> set (map fst m))"

definition Map_values :: "dmap \<Rightarrow> device list" where
  "Map_values m = map snd m"

definition Map_size :: "dmap \<Rightarrow> nat" where
  "Map_size m = length m"

subsection \<open>\<open>_normalizeDevice\<close>\<close>

definition normalizeDevice :: "device \<Rightarrow> normalized" where
  "normalizeDevice dev =
     \<lparr> n_ip = d_ip dev,
       n_name = or_str (d_name dev) ''Unknown Roku Device'',
       n_port = or_num (d_port dev) 8060,
       n_type = or_str (d_type dev) ''roku'',
       n_url = ''http://'' @ template_str (d_ip dev) @ '':'' @ string_of_int (or_num (d_port dev) 8060) \<rparr>"

subsection \<open>\<open>_extractDeviceInfo\<close>\<close>

definition extractDeviceInfo :: "mrecord \<Rightarrow> mrecord list \<Rightarrow> device option" where
  "extractDeviceInfo rec allRecords =
     (let dev0 = \<lparr> d_name = rname rec, d_type = Some ''roku'', d_port = Some 8060,
                    d_ip = None, d_text = None \<rparr>;
          aRecord = find (\<lambda>r. rtype r = ''A'' \<and> rname r = rname rec) allRecords;
          dev1 = (case aRecord of None \<Rightarrow> dev0 | Some a \<Rightarrow> dev0 \<lparr> d_ip := rdata a \<rparr>);
          txtRecord = find (\<lambda>r. rtype r = ''TXT'' \<and> rname r = rname rec) allRecords;
          dev2 = (case txtRecord of
                    None \<Rightarrow> dev1
                  | Some t \<Rightarrow> if truthy_str (rdata t) then dev1 \<lparr> d_text := rdata t \<rparr> else dev1)
      in if truthy_str (d_ip dev2) then Some dev2 else None)"

subsection \<open>\<open>_processResponse\<close>\<close>

text \<open>The body of the \<open>forEach\<close> callback, for one record.\<close>

definition processRecord :: "mrecord list \<Rightarrow> dmap \<Rightarrow> mrecord \<Rightarrow> dmap" where
  "processRecord allRecords m rec =
     (let m1 = (if truthy_str (rname rec) \<and> str_includes (the (rname rec)) ''Roku''
                then (case extractDeviceInfo rec allRecords of
                        None \<Rightarrow> m
                      | Some dev \<Rightarrow> if truthy_str (d_ip dev) then Map_set (the (d_ip dev)) dev m else m)
                else m)
      in if rtype rec = ''A'' \<and> truthy_str (rdata rec)
         then (let dev = \<lparr> d_name = rname rec, d_type = Some ''roku'', d_port = Some 8060,
                           d_ip = rdata rec, d_text = None \<rparr>
               in if \<not> Map_has (the (d_ip dev)) m1 then Map_set (the (d_ip dev)) dev m1 else m1)
         else m1)"

definition all_records :: "response \<Rightarrow> mrecord list" where
  "all_records resp =
     (case answers resp of None \<Rightarrow> [] | Some xs \<Rightarrow> xs) @
     (case additionals resp of None \<Rightarrow> [] | Some xs \<Rightarrow> xs)"

definition processResponse :: "response \<Rightarrow> dmap \<Rightarrow> dmap" where
  "processResponse resp m = foldl (processRecord (all_records resp)) m (all_records resp)"

subsection \<open>\<open>discover\<close>\<close>

text \<open>
  The promise returned by \<open>discover\<close> is settled by whichever of three callbacks runs
  first: the timer, the \<open>response\<close> handler, or the \<open>error\<close> handler. One call of
  \<open>discover\<close> is modelled by the sequence of events the event loop delivers to it. A
  promise settles once: the first \<open>resolve\<close> fixes its value, so the run stops there.
  A sequence that ends before any callback has resolved leaves the promise pending.
  \<open>maxDevices\<close> is the count the constructor reads from the configuration (10 by
  default), a natural number; \<open>slice(0, maxDevices)\<close> is \<open>take maxDevices\<close>.
\<close>

datatype event = Response response | Error | Timeout

datatype 'a promise = Pending | Resolved 'a | Rejected string

fun run :: "nat \<Rightarrow> dmap \<Rightarrow> event list \<Rightarrow> normalized list promise" where
  "run maxDevices m [] = Pending"
| "run maxDevices m (Timeout # es) =
     Resolved (map normalizeDevice (take maxDevices (Map_values m)))"
| "run maxDevices m (Response resp # es) =
     (if Map_size m \<ge> maxDevices
      then Resolved (map normalizeDevice (Map_values m))
      else run maxDevices (processResponse resp m) es)"
| "run maxDevices m (Error # es) =
     (let devices = map normalizeDevice (Map_values m)
      in Resolved (if length devices > 0 then devices else []))"

definition discover :: "nat \<Rightarrow> event list \<Rightarrow> normalized list promise" where
  "discover maxDevices es = run maxDevices [] es"

text \<open>The session map after a sequence of responses, each of them processed.\<close>

definition collected :: "response list \<Rightarrow> dmap" where
  "collected rs = foldl (\<lambda>m r. processResponse r m) [] rs"

text \<open>Every response of \<open>rs\<close>, delivered in turn, found the map below the cap and was processed.\<close>

fun below_cap :: "nat \<Rightarrow> dmap \<Rightarrow> response list \<Rightarrow> bool" where
  "below_cap maxDevices m [] = True"
| "below_cap maxDevices m (r # rs) =
     (Map_size m < maxDevices \<and> below_cap maxDevices (processResponse r m) rs)"

text \<open>The condition of the first branch of the \<open>forEach\<close> callback.\<close>

definition service_named :: "mrecord \<Rightarrow> bool" where
  "service_named rec = (truthy_str (rname rec) \<and> str_includes (the (rname rec)) ''Roku'')"

text \<open>What holds of every entry of the session map: the key is the device's address.\<close>

definition stored_ok :: "string \<times> device \<Rightarrow> bool" where
  "stored_ok kv = (d_ip (snd kv) = Some (fst kv) \<and> fst kv \<noteq> [] \<and>
                   d_type (snd kv) = Some ''roku'' \<and> d_port (snd kv) = Some 8060)"

definition map_inv :: "dmap \<Rightarrow> bool" where
  "map_inv m = (distinct (map fst m) \<and> list_all stored_ok m)"

section \<open>RokuService\<close>

subsection \<open>Errors, requests and the device's replies\<close>

text \<open>
  A thrown \<open>Error\<close> object: its \<open>code\<close> (set by the HTTP client on a connection failure,
  absent on errors the service creates itself) and its message.
\<close>

record js_error =
  code :: "string option"
  message :: string

text \<open>The configuration object handed to the HTTP client; \<open>body\<close> is \<open>config.data\<close>.\<close>

record request =
  http_method :: string
  url :: string
  timeout :: int
  body :: "string option"

text \<open>
  The client is called with \<open>validateStatus: () => true\<close>, so every reply, whatever its
  status, comes back as a value; only a failure to get a reply is thrown.
\<close>

datatype axios_outcome =
    Reply (status: int) (statusText: string) (data: string)
  | Failure js_error

type_synonym axios = "request \<Rightarrow> axios_outcome"

text \<open>
  The requests sent so far are threaded through every operation, so that what goes out
  to the device can be observed.
\<close>

type_synonym 'a io = "request list \<Rightarrow> (js_error + 'a) \<times> request list"

subsection \<open>\<open>_buildUrl\<close> and \<open>_makeRequest\<close>\<close>

definition buildUrl :: "string \<Rightarrow> string \<Rightarrow> string" where
  "buildUrl ip endpoint =
     (let baseUrl = (if str_includes ip '':'' then ip else ip @ '':8060'')
      in ''http://'' @ baseUrl @ endpoint)"

definition makeRequest :: "axios \<Rightarrow> string \<Rightarrow> string \<Rightarrow> string option \<Rightarrow> string io" where
  "makeRequest ax meth u dat sent =
     (let config = \<lparr> http_method = meth, url = u, timeout = 5000,
                      body = (if truthy_str dat then dat else None) \<rparr>;
          attempt =
            (case ax config of
               Failure err \<Rightarrow> Inl err
             | Reply st txt d \<Rightarrow>
                 if st \<ge> 400
                 then Inl \<lparr> code = None,
                            message = ''Roku API error: '' @ string_of_int st @ '' '' @ txt \<rparr>
                 else Inr d)
      in (case attempt of
            Inr d \<Rightarrow> Inr d
          | Inl err \<Rightarrow>
              if code err = Some ''ECONNREFUSED''
              then Inl \<lparr> code = None,
                         message = ''Cannot connect to Roku device at '' @ u @
                                   ''. Check IP address and that device is powered on.'' \<rparr>
              else if code err = Some ''ETIMEDOUT'' \<or> code err = Some ''ENOTFOUND''
              then Inl \<lparr> code = None,
                         message = ''Connection timeout to Roku device. Check network connectivity.'' \<rparr>
              else Inl err,
          sent @ [config]))"

subsection \<open>\<open>encodeURIComponent\<close>\<close>

text \<open>
  The text to send is a JavaScript string, a sequence of UTF-16 code units.
  \<open>encodeURIComponent\<close> is the language's built-in, modelled after its definition in
  ECMA-262 (\<open>Encode\<close> with the unreserved set of \<open>encodeURIComponent\<close>): an unreserved
  character is copied, any other code point is written as the percent-escaped octets of
  its UTF-8 encoding, and a surrogate without its partner throws a \<open>URIError\<close>.
\<close>

type_synonym utf16 = "16 word list"

definition utf16_of_string :: "string \<Rightarrow> utf16" where
  "utf16_of_string s = map (\<lambda>c. of_nat (of_char c)) s"

definition hex_digit :: "nat \<Rightarrow> char" where
  "hex_digit n = ''0123456789ABCDEF'' ! (n mod 16)"

definition percent_octet :: "nat \<Rightarrow> string" where
  "percent_octet b = [CHR ''%'', hex_digit (b div 16), hex_digit (b mod 16)]"

definition uri_unreserved :: "nat \<Rightarrow> bool" where
  "uri_unreserved c =
     ((65 \<le> c \<and> c \<le> 90) \<or> (97 \<le> c \<and> c \<le> 122) \<or> (48 \<le> c \<and> c \<le> 57) \<or>
      c \<in> set (map of_char ''-_.!~*'' @ [39] @ map of_char ''()''))"

definition utf8_octets :: "nat \<Rightarrow> nat list" where
  "utf8_octets cp =
     (if cp < 128 then [cp]
      else if cp < 2048 then [192 + cp div 64, 128 + cp mod 64]
      else if cp < 65536 then [224 + cp div 4096, 128 + (cp div 64) mod 64, 128 + cp mod 64]
      else [240 + cp div 262144, 128 + (cp div 4096) mod 64, 128 + (cp div 64) mod 64,
            128 + cp mod 64])"

definition URIError :: js_error where
  "URIError = \<lparr> code = None, message = ''URI malformed'' \<rparr>"

fun encode_units :: "nat list \<Rightarrow> js_error + string" where
  "encode_units [] = Inr []"
| "encode_units (c # rest) =
     (if uri_unreserved c then
        (case encode_units rest of Inl e \<Rightarrow> Inl e | Inr out \<Rightarrow> Inr (char_of c # out))
      else if c < 55296 \<or> 57343 < c then
        (case encode_units rest of
           Inl e \<Rightarrow> Inl e
         | Inr out \<Rightarrow> Inr (concat (map percent_octet (utf8_octets c)) @ out))
      else if 56320 \<le> c then Inl URIError
      else
        (case rest of
           [] \<Rightarrow> Inl URIError
         | d # rest' \<Rightarrow>
             if 56320 \<le> d \<and> d \<le> 57343 then
               (case encode_units rest' of
                  Inl e \<Rightarrow> Inl e
                | Inr out \<Rightarrow>
                    Inr (concat (map percent_octet
                           (utf8_octets ((c - 55296) * 1024 + (d - 56320) + 65536))) @ out))
             else Inl URIError))"

definition encodeURIComponent :: "utf16 \<Rightarrow> js_error + string" where
  "encodeURIComponent s = encode_units (map unat s)"

subsection \<open>The commands\<close>

definition keypress :: "axios \<Rightarrow> string \<Rightarrow> string \<Rightarrow> string io" where
  "keypress ax ip key = makeRequest ax ''POST'' (buildUrl ip (''/keypress/'' @ key)) (Some '''')"

text \<open>The method \<open>text\<close> of the service.\<close>

definition text_cmd :: "axios \<Rightarrow> string \<Rightarrow> utf16 \<Rightarrow> string io" where
  "text_cmd ax ip txt sent =
     (case encodeURIComponent txt of
        Inl e \<Rightarrow> (Inl e, sent)
      | Inr encodedText \<Rightarrow>
          makeRequest ax ''POST'' (buildUrl ip (''/keypress/Lit_'' @ encodedText)) (Some '''') sent)"

subsection \<open>Parsed XML\<close>

text \<open>
  \<open>parseStringPromise\<close> belongs to the XML library; it is a parameter of the model, a
  function from the reply text to either a thrown error or the parsed value. The parsed
  value is a JavaScript value built from objects, arrays and strings: an element becomes
  an object whose attributes sit under the key \<open>$\<close> and whose text content sits under
  \<open>_\<close>, and the children of one name are gathered into an array.
\<close>

datatype jsval =
    JUndefined
  | JNull
  | JString string
  | JArray "jsval list"
  | JObject "(string \<times> jsval) list"

type_synonym xml_parser = "string \<Rightarrow> js_error + jsval"

definition TypeError :: js_error where
  "TypeError = \<lparr> code = None, message = ''Cannot read properties of undefined'' \<rparr>"

fun truthy :: "jsval \<Rightarrow> bool" where
  "truthy JUndefined = False"
| "truthy JNull = False"
| "truthy (JString s) = (s \<noteq> [])"
| "truthy (JArray xs) = True"
| "truthy (JObject kvs) = True"

fun nullish :: "jsval \<Rightarrow> bool" where
  "nullish JUndefined = True"
| "nullish JNull = True"
| "nullish v = False"

text \<open>
  Reading a property \<open>v.k\<close>, for the keys this service reads (\<open>apps\<close>, \<open>app\<close>,
  \<open>active-app\<close>, \<open>$\<close>, \<open>_\<close>, \<open>id\<close>, \<open>type\<close>, \<open>version\<close>): it throws on
  \<open>undefined\<close> and \<open>null\<close>, and a string or an array has none of these keys.
\<close>

fun get_prop :: "jsval \<Rightarrow> string \<Rightarrow> js_error + jsval" where
  "get_prop JUndefined k = Inl TypeError"
| "get_prop JNull k = Inl TypeError"
| "get_prop (JObject kvs) k = Inr (case map_of kvs k of None \<Rightarrow> JUndefined | Some v \<Rightarrow> v)"
| "get_prop (JString s) k = Inr JUndefined"
| "get_prop (JArray xs) k = Inr JUndefined"

text \<open>Optional chaining \<open>v?.k\<close>: \<open>undefined\<close> when \<open>v\<close> is \<open>undefined\<close> or \<open>null\<close>.\<close>

definition get_prop_opt :: "jsval \<Rightarrow> string \<Rightarrow> js_error + jsval" where
  "get_prop_opt v k = (if nullish v then Inr JUndefined else get_prop v k)"

text \<open>\<open>v?.[0]\<close>: the first element of an array, the first character of a string.\<close>

fun get_first_opt :: "jsval \<Rightarrow> jsval" where
  "get_first_opt (JArray (x # xs)) = x"
| "get_first_opt (JString (c # s)) = JString [c]"
| "get_first_opt v = JUndefined"

text \<open>Sequencing of steps that may throw.\<close>

definition and_then :: "js_error + 'a \<Rightarrow> ('a \<Rightarrow> js_error + 'b) \<Rightarrow> js_error + 'b" where
  "and_then r f = (case r of Inl e \<Rightarrow> Inl e | Inr v \<Rightarrow> f v)"

fun map_throwing :: "('a \<Rightarrow> js_error + 'b) \<Rightarrow> 'a list \<Rightarrow> js_error + 'b list" where
  "map_throwing f [] = Inr []"
| "map_throwing f (x # xs) =
     and_then (f x) (\<lambda>y. and_then (map_throwing f xs) (\<lambda>ys. Inr (y # ys)))"

record app =
  app_id :: jsval
  app_name :: jsval
  app_type :: jsval
  app_version :: jsval

subsection \<open>\<open>_parseAppsXml\<close>\<close>

text \<open>The arrow function mapped over the entries.\<close>

definition apps_entry :: "jsval \<Rightarrow> js_error + app" where
  "apps_entry a =
     and_then (and_then (get_prop a ''$'') (\<lambda>attrs. get_prop attrs ''id'')) (\<lambda>i.
     and_then (and_then (and_then (get_prop a ''$'') (\<lambda>attrs. get_prop attrs ''version''))
                 (\<lambda>v. if truthy v then Inr v else get_prop a ''_'')) (\<lambda>n.
     and_then (and_then (get_prop a ''$'') (\<lambda>attrs. get_prop attrs ''type'')) (\<lambda>t.
     and_then (and_then (get_prop a ''$'') (\<lambda>attrs. get_prop attrs ''version'')) (\<lambda>v.
     Inr \<lparr> app_id = i, app_name = n, app_type = t, app_version = v \<rparr>))))"

text \<open>The expression \<open>parsed.apps?.app\<close>.\<close>

definition apps_field :: "jsval \<Rightarrow> js_error + jsval" where
  "apps_field parsed = and_then (get_prop parsed ''apps'') (\<lambda>a. get_prop_opt a ''app'')"

text \<open>The body of the \<open>try\<close> block.\<close>

definition parseAppsXml_try :: "xml_parser \<Rightarrow> string \<Rightarrow> js_error + app list" where
  "parseAppsXml_try parseString xml =
     and_then (parseString xml) (\<lambda>parsed.
     and_then (apps_field parsed) (\<lambda>found.
     let apps = (if truthy found then found else JArray [])
     in (case apps of JArray entries \<Rightarrow> map_throwing apps_entry entries | _ \<Rightarrow> Inr [])))"

definition parseAppsXml :: "xml_parser \<Rightarrow> string \<Rightarrow> app list" where
  "parseAppsXml parseString xml =
     (case parseAppsXml_try parseString xml of Inl err \<Rightarrow> [] | Inr apps \<Rightarrow> apps)"

subsection \<open>\<open>_parseActiveAppXml\<close>\<close>

definition parseActiveAppXml_try :: "xml_parser \<Rightarrow> string \<Rightarrow> js_error + app option" where
  "parseActiveAppXml_try parseString xml =
     and_then (parseString xml) (\<lambda>parsed.
     and_then (and_then (get_prop parsed ''active-app'') (\<lambda>a. get_prop_opt a ''app'')) (\<lambda>found.
     let a = get_first_opt found
     in if \<not> truthy a then Inr None
        else
          and_then (and_then (get_prop a ''$'') (\<lambda>attrs. get_prop attrs ''id'')) (\<lambda>i.
          and_then (get_prop a ''_'') (\<lambda>n.
          and_then (and_then (get_prop a ''$'') (\<lambda>attrs. get_prop attrs ''type'')) (\<lambda>t.
          and_then (and_then (get_prop a ''$'') (\<lambda>attrs. get_prop attrs ''version'')) (\<lambda>v.
          Inr (Some \<lparr> app_id = i, app_name = n, app_type = t, app_version = v \<rparr>)))))))"

definition parseActiveAppXml :: "xml_parser \<Rightarrow> string \<Rightarrow> app option" where
  "parseActiveAppXml parseString xml =
     (case parseActiveAppXml_try parseString xml of Inl err \<Rightarrow> None | Inr a \<Rightarrow> a)"

subsection \<open>\<open>_parseMediaXml\<close>\<close>

text \<open>
  The media record: the parsed reply, or the object \<open>{available: false}\<close>, to which
  \<open>getMediaPlayer\<close> adds the message of the failure.
\<close>

datatype media = MediaState jsval | Unavailable "string option"

definition parseMediaXml :: "xml_parser \<Rightarrow> string \<Rightarrow> media" where
  "parseMediaXml parseString xml =
     (case parseString xml of
        Inl err \<Rightarrow> Unavailable None
      | Inr parsed \<Rightarrow> if truthy parsed then MediaState parsed else Unavailable None)"

subsection \<open>The queries\<close>

definition getApps :: "axios \<Rightarrow> xml_parser \<Rightarrow> string \<Rightarrow> app list io" where
  "getApps ax parseString ip sent =
     (case makeRequest ax ''GET'' (buildUrl ip ''/query/apps'') None sent of
        (Inl err, sent') \<Rightarrow> (Inl err, sent')
      | (Inr xml, sent') \<Rightarrow> (Inr (parseAppsXml parseString xml), sent'))"

definition getActiveApp :: "axios \<Rightarrow> xml_parser \<Rightarrow> string \<Rightarrow> app option io" where
  "getActiveApp ax parseString ip sent =
     (case makeRequest ax ''GET'' (buildUrl ip ''/query/active-app'') None sent of
        (Inl err, sent') \<Rightarrow> (Inl err, sent')
      | (Inr xml, sent') \<Rightarrow> (Inr (parseActiveAppXml parseString xml), sent'))"

definition getMediaPlayer :: "axios \<Rightarrow> xml_parser \<Rightarrow> string \<Rightarrow> media io" where
  "getMediaPlayer ax parseString ip sent =
     (case makeRequest ax ''GET'' (buildUrl ip ''/query/media-search'') None sent of
        (Inr xml, sent') \<Rightarrow> (Inr (parseMediaXml parseString xml), sent')
      | (Inl err, sent') \<Rightarrow> (Inr (Unavailable (Some (message err))), sent'))"

subsection \<open>Sample replies\<close>

text \<open>
  A device that answers every request with status 404 and a body that is not XML, and
  the XML parser's answer to such a body.
\<close>

definition not_found_client :: axios where
  "not_found_client req = Reply 404 ''Not Found'' ''not xml''"

definition rejecting_parser :: xml_parser where
  "rejecting_parser xml = Inl \<lparr> code = None, message = ''Non-whitespace before first tag.'' \<rparr>"

section \<open>Properties of DeviceDiscovery\<close>

subsection \<open>Evaluation and the session map's invariant\<close>

lemmas eval_defs = discover_def collected_def processResponse_def all_records_def processRecord_def
  extractDeviceInfo_def truthy_str_def truthy_num_def or_str_def or_num_def template_str_def
  Map_set_def Map_has_def Map_values_def Map_size_def normalizeDevice_def starts_with_def Let_def

lemma string_of_int_8060: "string_of_int 8060 = ''8060''"
  by (simp add: string_of_int_def string_of_nat.simps digit_char_def)

lemma set_update_subset: "set (AList.update k v m) \<subseteq> insert (k, v) (set m)"
  by (induction m) auto

lemma Map_set_inv: "map_inv m \<Longrightarrow> stored_ok (k, v) \<Longrightarrow> map_inv (Map_set k v m)"
  using set_update_subset [of k v m]
  by (auto simp: map_inv_def Map_set_def distinct_update list_all_iff)

lemma map_of_Map_set_same: "map_of (Map_set k v m) k = Some v"
  by (simp add: Map_set_def update_conv')

lemma map_of_Map_set_other: "k' \<noteq> k \<Longrightarrow> map_of (Map_set k v m) k' = map_of m k'"
  by (simp add: Map_set_def update_conv')

lemma Map_has_map_of: "Map_has k m \<longleftrightarrow> map_of m k \<noteq> None"
  by (simp add: Map_has_def map_of_eq_None_iff)

lemma extractDeviceInfo_Some:
  "extractDeviceInfo r rs = Some dev \<Longrightarrow>
     truthy_str (d_ip dev) \<and> d_type dev = Some ''roku'' \<and> d_port dev = Some 8060 \<and> d_name dev = rname r"
  by (auto simp: extractDeviceInfo_def Let_def split: option.splits if_splits)

lemma truthy_strD: "truthy_str v \<Longrightarrow> \<exists>s. v = Some s \<and> s \<noteq> []"
  by (cases v) (auto simp: truthy_str_def)

lemma processRecord_inv: "map_inv m \<Longrightarrow> map_inv (processRecord rs m r)"
  unfolding processRecord_def Let_def
  by (auto split: option.splits dest!: extractDeviceInfo_Some truthy_strD intro!: Map_set_inv
      simp: stored_ok_def)

lemma foldl_processRecord_inv: "map_inv m \<Longrightarrow> map_inv (foldl (processRecord rs) m xs)"
  by (induction xs arbitrary: m) (auto simp: processRecord_inv)

lemma processResponse_inv: "map_inv m \<Longrightarrow> map_inv (processResponse r m)"
  by (simp add: processResponse_def foldl_processRecord_inv)

lemma foldl_processResponse_inv:
  "map_inv m \<Longrightarrow> map_inv (foldl (\<lambda>m r. processResponse r m) m rs)"
  by (induction rs arbitrary: m) (auto simp: processResponse_inv)

lemma map_inv_Nil: "map_inv []"
  by (simp add: map_inv_def)

lemma collected_inv: "map_inv (collected rs)"
  unfolding collected_def by (rule foldl_processResponse_inv [OF map_inv_Nil])

lemma stored_device:
  assumes "dev \<in> set (Map_values (collected rs))"
  shows "\<exists>a. a \<noteq> [] \<and> d_ip dev = Some a \<and> d_type dev = Some ''roku'' \<and> d_port dev = Some 8060"
proof -
  from assms obtain k where "(k, dev) \<in> set (collected rs)"
    by (auto simp: Map_values_def)
  moreover have "list_all stored_ok (collected rs)"
    using collected_inv [of rs] by (simp add: map_inv_def)
  ultimately have "stored_ok (k, dev)" by (auto simp: list_all_iff)
  then show ?thesis by (auto simp: stored_ok_def)
qed

lemma n_ip_normalizeDevice: "n_ip (normalizeDevice d) = d_ip d"
  by (simp add: normalizeDevice_def)

lemma map_inv_distinct_ip: "map_inv m \<Longrightarrow> distinct (map d_ip (Map_values m))"
proof -
  assume a: "map_inv m"
  then have "map d_ip (Map_values m) = map Some (map fst m)"
    by (auto simp: map_inv_def Map_values_def list_all_iff stored_ok_def)
  moreover from a have "distinct (map Some (map fst m))"
    unfolding map_inv_def by (simp only: distinct_map) (auto simp: inj_on_def)
  ultimately show ?thesis by simp
qed

lemma distinct_take_map: "distinct (map f xs) \<Longrightarrow> distinct (map f (take n xs))"
  by (simp add: take_map [symmetric])

subsection \<open>The event loop\<close>

lemma run_distinct:
  "map_inv m \<Longrightarrow> run maxDevices m es = Resolved ds \<Longrightarrow> distinct (map n_ip ds)"
proof (induction maxDevices m es rule: run.induct)
  case (1 maxDevices m)
  then show ?case by simp
next
  case (2 maxDevices m es)
  then show ?case
    using distinct_take_map [OF map_inv_distinct_ip, of m maxDevices]
    by (auto simp: comp_def n_ip_normalizeDevice)
next
  case (3 maxDevices m resp es)
  then show ?case
    using map_inv_distinct_ip [of m]
    by (auto simp: comp_def n_ip_normalizeDevice processResponse_inv split: if_splits)
next
  case (4 maxDevices m es)
  then show ?case
    using map_inv_distinct_ip [of m]
    by (auto simp: comp_def n_ip_normalizeDevice Let_def)
qed

lemma run_below_cap:
  "below_cap maxDevices m rs \<Longrightarrow>
     run maxDevices m (map Response rs @ es)
       = run maxDevices (foldl (\<lambda>m r. processResponse r m) m rs) es"
  by (induction rs arbitrary: m) auto

lemma run_never_rejects: "run maxDevices m es \<noteq> Rejected msg"
  by (induction maxDevices m es rule: run.induct) (auto simp: Let_def)

lemma run_error_resolves: "\<exists>ds. run maxDevices m (map Response rs @ Error # es) = Resolved ds"
  by (induction rs arbitrary: m) (auto simp: Let_def)

text \<open>The deadline path cuts the result at the cap; the other two paths do not.\<close>

lemma deadline_path_capped:
  "below_cap maxDevices [] rs \<Longrightarrow>
     \<exists>ds. discover maxDevices (map Response rs @ Timeout # es) = Resolved ds \<and> length ds \<le> maxDevices"
  using run_below_cap [of maxDevices "[]" rs "Timeout # es"] by (simp add: discover_def)

lemma address_branch_keeps:
  "Map_has k m1 \<Longrightarrow> map_of (if \<not> Map_has k' m1 then Map_set k' v m1 else m1) k = map_of m1 k"
  by (cases "k' = k") (auto simp: map_of_Map_set_other)

subsection \<open>The size of the result\<close>

text \<open>
  C1: the list that \<open>discover\<close> resolves with never has more than \<open>maxDevices\<close> entries,
  on every resolution path. The code breaks this on the cap path and on the error path:
  with \<open>maxDevices = 1\<close>, one response carrying two address records puts two devices into
  the map, and both the listener error and the next response resolve with the two of
  them. Only the deadline path cuts the list (\<open>deadline_path_capped\<close>).
\<close>

theorem discover_exceeds_maxDevices:
  "discover 1
     [Response \<lparr> answers = Some [\<lparr> rname = Some ''tv'', rtype = ''A'', rdata = Some ''10.0.0.1'' \<rparr>,
                                  \<lparr> rname = Some ''pc'', rtype = ''A'', rdata = Some ''10.0.0.2'' \<rparr>],
                  additionals = None \<rparr>,
      Error]
   = Resolved
       [\<lparr> n_ip = Some ''10.0.0.1'', n_name = ''tv'', n_port = 8060, n_type = ''roku'',
           n_url = ''http://10.0.0.1:8060'' \<rparr>,
        \<lparr> n_ip = Some ''10.0.0.2'', n_name = ''pc'', n_port = 8060, n_type = ''roku'',
           n_url = ''http://10.0.0.2:8060'' \<rparr>]
   \<and> discover 1
     [Response \<lparr> answers = Some [\<lparr> rname = Some ''tv'', rtype = ''A'', rdata = Some ''10.0.0.1'' \<rparr>,
                                  \<lparr> rname = Some ''pc'', rtype = ''A'', rdata = Some ''10.0.0.2'' \<rparr>],
                  additionals = None \<rparr>,
      Response \<lparr> answers = None, additionals = None \<rparr>]
   = Resolved
       [\<lparr> n_ip = Some ''10.0.0.1'', n_name = ''tv'', n_port = 8060, n_type = ''roku'',
           n_url = ''http://10.0.0.1:8060'' \<rparr>,
        \<lparr> n_ip = Some ''10.0.0.2'', n_name = ''pc'', n_port = 8060, n_type = ''roku'',
           n_url = ''http://10.0.0.2:8060'' \<rparr>]"
  by (simp add: eval_defs string_of_int_8060)

subsection \<open>Resolution at the cap\<close>

text \<open>
  C2: once the map holds \<open>maxDevices\<close> addresses, \<open>discover\<close> resolves right after that
  insert, without waiting for the deadline or for a further response. The code tests the
  size when a response arrives, before that response is processed, and nowhere after an
  insert: with \<open>maxDevices = 1\<close>, the response that brings the map to one address leaves
  the promise pending, and when no further response arrives it is the deadline that
  resolves it.
\<close>

theorem discover_pending_after_cap_reached:
  "below_cap 1 [] [\<lparr> answers = Some [\<lparr> rname = Some ''tv'', rtype = ''A'', rdata = Some ''10.0.0.1'' \<rparr>],
                     additionals = None \<rparr>]
   \<and> Map_size (collected [\<lparr> answers = Some [\<lparr> rname = Some ''tv'', rtype = ''A'', rdata = Some ''10.0.0.1'' \<rparr>],
                              additionals = None \<rparr>]) = 1
   \<and> discover 1 [Response \<lparr> answers = Some [\<lparr> rname = Some ''tv'', rtype = ''A'', rdata = Some ''10.0.0.1'' \<rparr>],
                              additionals = None \<rparr>] = Pending
   \<and> discover 1 [Response \<lparr> answers = Some [\<lparr> rname = Some ''tv'', rtype = ''A'', rdata = Some ''10.0.0.1'' \<rparr>],
                              additionals = None \<rparr>,
                  Timeout]
       = Resolved [\<lparr> n_ip = Some ''10.0.0.1'', n_name = ''tv'', n_port = 8060, n_type = ''roku'',
                     n_url = ''http://10.0.0.1:8060'' \<rparr>]"
  by (simp add: eval_defs string_of_int_8060)

subsection \<open>Overwriting by address\<close>

text \<open>
  C3, as stated: a later observation for an address already in the map replaces the
  stored descriptor, whatever kind of record it comes from. For a bare address record it
  does not: the second \<open>A\<close> record for \<open>10.0.0.1\<close> leaves the descriptor of the first in
  the map.
\<close>

theorem later_address_record_kept_counterexample:
  "map_of (processResponse
             \<lparr> answers = Some [\<lparr> rname = Some ''second'', rtype = ''A'', rdata = Some ''10.0.0.1'' \<rparr>],
                additionals = None \<rparr>
             (processResponse
                \<lparr> answers = Some [\<lparr> rname = Some ''first'', rtype = ''A'', rdata = Some ''10.0.0.1'' \<rparr>],
                   additionals = None \<rparr> []))
          ''10.0.0.1''
   = Some \<lparr> d_name = Some ''first'', d_type = Some ''roku'', d_port = Some 8060,
             d_ip = Some ''10.0.0.1'', d_text = None \<rparr>"
  by (simp add: eval_defs)

text \<open>
  C3, amended: a record whose name contains the service marker and whose address
  resolves replaces the stored descriptor of that address by the one just built, whole;
  a bare address record (one that yields no service descriptor) for an address already
  in the map leaves the map as it is.
\<close>

theorem processRecord_overwrite_policy:
  "(service_named rec \<and> extractDeviceInfo rec allRecords = Some dev
      \<longrightarrow> map_of (processRecord allRecords m rec) (the (d_ip dev)) = Some dev)
   \<and> (\<not> (service_named rec \<and> extractDeviceInfo rec allRecords \<noteq> None)
        \<and> rtype rec = ''A'' \<and> rdata rec = Some a \<and> Map_has a m
      \<longrightarrow> processRecord allRecords m rec = m)"
proof (intro conjI impI)
  assume a: "service_named rec \<and> extractDeviceInfo rec allRecords = Some dev"
  then have t: "truthy_str (d_ip dev)" by (auto dest: extractDeviceInfo_Some)
  define m1 where "m1 = Map_set (the (d_ip dev)) dev m"
  have l: "map_of m1 (the (d_ip dev)) = Some dev"
    by (simp add: m1_def map_of_Map_set_same)
  then have h: "Map_has (the (d_ip dev)) m1" by (simp add: Map_has_map_of)
  have "processRecord allRecords m rec = m1 \<or>
        (\<exists>k v. processRecord allRecords m rec = (if \<not> Map_has k m1 then Map_set k v m1 else m1))"
    using a t by (simp add: processRecord_def service_named_def Let_def m1_def) blast
  then show "map_of (processRecord allRecords m rec) (the (d_ip dev)) = Some dev"
    using l address_branch_keeps [OF h] by (elim disjE exE) (simp_all only:)
next
  assume "\<not> (service_named rec \<and> extractDeviceInfo rec allRecords \<noteq> None)
        \<and> rtype rec = ''A'' \<and> rdata rec = Some a \<and> Map_has a m"
  then show "processRecord allRecords m rec = m"
    by (auto simp: processRecord_def service_named_def Let_def split: option.splits)
qed

theorem processRecord_overwrite_policy_witness:
  "map_of (processRecord
       [\<lparr> rname = Some ''Roku Ultra'', rtype = ''PTR'', rdata = None \<rparr>,
        \<lparr> rname = Some ''Roku Ultra'', rtype = ''A'', rdata = Some ''10.0.0.1'' \<rparr>]
       [(''10.0.0.1'', \<lparr> d_name = Some ''first'', d_type = Some ''roku'', d_port = Some 8060,
             d_ip = Some ''10.0.0.1'', d_text = None \<rparr>)]
       \<lparr> rname = Some ''Roku Ultra'', rtype = ''PTR'', rdata = None \<rparr>) ''10.0.0.1''
    = Some \<lparr> d_name = Some ''Roku Ultra'', d_type = Some ''roku'', d_port = Some 8060,
             d_ip = Some ''10.0.0.1'', d_text = None \<rparr>
   \<and> processRecord [\<lparr> rname = Some ''second'', rtype = ''A'', rdata = Some ''10.0.0.1'' \<rparr>]
        [(''10.0.0.1'', \<lparr> d_name = Some ''first'', d_type = Some ''roku'', d_port = Some 8060,
             d_ip = Some ''10.0.0.1'', d_text = None \<rparr>)]
        \<lparr> rname = Some ''second'', rtype = ''A'', rdata = Some ''10.0.0.1'' \<rparr>
      = [(''10.0.0.1'', \<lparr> d_name = Some ''first'', d_type = Some ''roku'', d_port = Some 8060,
             d_ip = Some ''10.0.0.1'', d_text = None \<rparr>)]"
proof -
  let ?all = "[\<lparr> rname = Some ''Roku Ultra'', rtype = ''PTR'', rdata = None \<rparr>,
        \<lparr> rname = Some ''Roku Ultra'', rtype = ''A'', rdata = Some ''10.0.0.1'' \<rparr>]"
  let ?rec = "\<lparr> rname = Some ''Roku Ultra'', rtype = ''PTR'', rdata = None \<rparr>"
  let ?dev = "\<lparr> d_name = Some ''Roku Ultra'', d_type = Some ''roku'', d_port = Some 8060,
             d_ip = Some ''10.0.0.1'', d_text = None \<rparr>"
  let ?m = "[(''10.0.0.1'', \<lparr> d_name = Some ''first'', d_type = Some ''roku'', d_port = Some 8060,
             d_ip = Some ''10.0.0.1'', d_text = None \<rparr>)]"
  let ?rec2 = "\<lparr> rname = Some ''second'', rtype = ''A'', rdata = Some ''10.0.0.1'' \<rparr>"
  have 1: "service_named ?rec \<and> extractDeviceInfo ?rec ?all = Some ?dev"
    by (simp add: service_named_def extractDeviceInfo_def truthy_str_def starts_with_def Let_def)
  have 2: "\<not> (service_named ?rec2 \<and> extractDeviceInfo ?rec2 [?rec2] \<noteq> None)
        \<and> rtype ?rec2 = ''A'' \<and> rdata ?rec2 = Some ''10.0.0.1'' \<and> Map_has ''10.0.0.1'' ?m"
    by (simp add: service_named_def truthy_str_def starts_with_def Map_has_def)
  from 1 2 processRecord_overwrite_policy [of ?rec ?all ?dev ?m]
    processRecord_overwrite_policy [of ?rec2 "[?rec2]" _ ?m "''10.0.0.1''"]
  show ?thesis by simp
qed

subsection \<open>The promise is never rejected\<close>

text \<open>
  C5: \<open>discover\<close> never rejects. Whatever the events, the promise is not rejected; a
  listener error after any responses resolves it; when it was still pending (every
  response so far was processed), the error resolves it with the descriptors collected so
  far, normalized; and an error before any response resolves it with the empty list.
\<close>

theorem discover_never_rejects:
  "discover maxDevices es \<noteq> Rejected msg
   \<and> (\<exists>ds. discover maxDevices (map Response rs @ Error # es) = Resolved ds)
   \<and> (below_cap maxDevices [] rs \<longrightarrow>
        discover maxDevices (map Response rs @ Error # es)
          = Resolved (map normalizeDevice (Map_values (collected rs))))
   \<and> discover maxDevices (Error # es) = Resolved []"
proof -
  have "discover maxDevices (map Response rs @ Error # es)
          = Resolved (map normalizeDevice (Map_values (collected rs)))"
    if "below_cap maxDevices [] rs"
    using run_below_cap [OF that, of "Error # es"] by (simp add: discover_def collected_def Let_def)
  moreover have "discover maxDevices (Error # es) = Resolved []"
    by (simp add: discover_def Map_values_def)
  ultimately show ?thesis
    using run_never_rejects [of maxDevices "[]" es msg] run_error_resolves [of maxDevices "[]" rs es]
    by (simp add: discover_def)
qed

theorem discover_never_rejects_witness:
  "below_cap 5 [] [\<lparr> answers = Some [\<lparr> rname = Some ''tv'', rtype = ''A'', rdata = Some ''10.0.0.1'' \<rparr>],
                     additionals = None \<rparr>]
   \<and> discover 5 [Response \<lparr> answers = Some [\<lparr> rname = Some ''tv'', rtype = ''A'', rdata = Some ''10.0.0.1'' \<rparr>],
                              additionals = None \<rparr>, Error]
     = Resolved [\<lparr> n_ip = Some ''10.0.0.1'', n_name = ''tv'', n_port = 8060, n_type = ''roku'',
                   n_url = ''http://10.0.0.1:8060'' \<rparr>]"
proof -
  let ?rs = "[\<lparr> answers = Some [\<lparr> rname = Some ''tv'', rtype = ''A'', rdata = Some ''10.0.0.1'' \<rparr>],
                additionals = None \<rparr>]"
  have b: "below_cap 5 [] ?rs" by (simp add: Map_size_def)
  have c: "map normalizeDevice (Map_values (collected ?rs))
     = [\<lparr> n_ip = Some ''10.0.0.1'', n_name = ''tv'', n_port = 8060, n_type = ''roku'',
          n_url = ''http://10.0.0.1:8060'' \<rparr>]"
    by (simp add: eval_defs string_of_int_8060)
  from b c discover_never_rejects [of 5 "[]" _ ?rs] show ?thesis by simp
qed

subsection \<open>Normalization\<close>

text \<open>
  C6: normalization of a descriptor. The display name falls back to
  \<open>Unknown Roku Device\<close> when absent and is kept when present; the port falls back to
  8060 when absent; the address is kept; the URL is \<open>http://\<close>, the address, a colon and
  the resulting port. For every descriptor stored in a session map the kind is \<open>roku\<close>,
  the port 8060 and the URL \<open>http://<address>:8060\<close>. A descriptor with address
  \<open>10.0.0.5\<close> and no port gets port 8060 and URL \<open>http://10.0.0.5:8060\<close>.
\<close>

theorem normalizeDevice_fields:
  "(d_name dev = None \<longrightarrow> n_name (normalizeDevice dev) = ''Unknown Roku Device'')
   \<and> (truthy_str (d_name dev) \<longrightarrow> n_name (normalizeDevice dev) = the (d_name dev))
   \<and> (d_port dev = None \<longrightarrow> n_port (normalizeDevice dev) = 8060)
   \<and> (truthy_num (d_port dev) \<longrightarrow> n_port (normalizeDevice dev) = the (d_port dev))
   \<and> (d_type dev = None \<longrightarrow> n_type (normalizeDevice dev) = ''roku'')
   \<and> n_ip (normalizeDevice dev) = d_ip dev
   \<and> n_url (normalizeDevice dev)
       = ''http://'' @ template_str (d_ip dev) @ '':'' @ string_of_int (n_port (normalizeDevice dev))
   \<and> (dev \<in> set (Map_values (collected rs)) \<longrightarrow>
        n_type (normalizeDevice dev) = ''roku'' \<and> n_port (normalizeDevice dev) = 8060 \<and>
        (\<exists>a. d_ip dev = Some a \<and> n_url (normalizeDevice dev) = ''http://'' @ a @ '':8060''))
   \<and> n_port (normalizeDevice \<lparr> d_name = nm, d_type = ty, d_port = None,
                                d_ip = Some ''10.0.0.5'', d_text = tx \<rparr>) = 8060
   \<and> n_url (normalizeDevice \<lparr> d_name = nm, d_type = ty, d_port = None,
                               d_ip = Some ''10.0.0.5'', d_text = tx \<rparr>) = ''http://10.0.0.5:8060''"
proof -
  have general: "(d_name dev = None \<longrightarrow> n_name (normalizeDevice dev) = ''Unknown Roku Device'')
   \<and> (truthy_str (d_name dev) \<longrightarrow> n_name (normalizeDevice dev) = the (d_name dev))
   \<and> (d_port dev = None \<longrightarrow> n_port (normalizeDevice dev) = 8060)
   \<and> (truthy_num (d_port dev) \<longrightarrow> n_port (normalizeDevice dev) = the (d_port dev))
   \<and> (d_type dev = None \<longrightarrow> n_type (normalizeDevice dev) = ''roku'')
   \<and> n_ip (normalizeDevice dev) = d_ip dev
   \<and> n_url (normalizeDevice dev)
       = ''http://'' @ template_str (d_ip dev) @ '':'' @ string_of_int (n_port (normalizeDevice dev))"
    by (simp add: normalizeDevice_def or_str_def or_num_def truthy_str_def truthy_num_def)
  have stored: "n_type (normalizeDevice dev) = ''roku'' \<and> n_port (normalizeDevice dev) = 8060 \<and>
        (\<exists>a. d_ip dev = Some a \<and> n_url (normalizeDevice dev) = ''http://'' @ a @ '':8060'')"
    if "dev \<in> set (Map_values (collected rs))"
    using stored_device [OF that]
    by (auto simp: normalizeDevice_def or_str_def or_num_def truthy_str_def truthy_num_def
        template_str_def string_of_int_8060)
  have example: "n_port (normalizeDevice \<lparr> d_name = nm, d_type = ty, d_port = None,
                                d_ip = Some ''10.0.0.5'', d_text = tx \<rparr>) = 8060
   \<and> n_url (normalizeDevice \<lparr> d_name = nm, d_type = ty, d_port = None,
                               d_ip = Some ''10.0.0.5'', d_text = tx \<rparr>) = ''http://10.0.0.5:8060''"
    by (simp add: normalizeDevice_def or_num_def truthy_num_def template_str_def string_of_int_8060)
  from general stored example show ?thesis by blast
qed

theorem normalizeDevice_fields_witness:
  "normalizeDevice \<lparr> d_name = None, d_type = Some ''roku'', d_port = Some 8060,
                     d_ip = Some ''10.0.0.5'', d_text = None \<rparr>
   = \<lparr> n_ip = Some ''10.0.0.5'', n_name = ''Unknown Roku Device'', n_port = 8060,
       n_type = ''roku'', n_url = ''http://10.0.0.5:8060'' \<rparr>"
proof -
  let ?dev = "\<lparr> d_name = None, d_type = Some ''roku'', d_port = Some 8060,
                d_ip = Some ''10.0.0.5'', d_text = None \<rparr>"
  let ?rs = "[\<lparr> answers = Some [\<lparr> rname = None, rtype = ''A'', rdata = Some ''10.0.0.5'' \<rparr>],
                additionals = None \<rparr>]"
  have s: "?dev \<in> set (Map_values (collected ?rs))"
    by (simp add: eval_defs)
  have "d_name ?dev = None" by simp
  with s normalizeDevice_fields [of ?dev ?rs]
  have "n_name (normalizeDevice ?dev) = ''Unknown Roku Device''"
    and "n_type (normalizeDevice ?dev) = ''roku''"
    and "n_port (normalizeDevice ?dev) = 8060"
    and "n_ip (normalizeDevice ?dev) = Some ''10.0.0.5''"
    and "n_url (normalizeDevice ?dev) = ''http://10.0.0.5:8060''"
    by (auto simp: template_str_def string_of_int_8060)
  then show ?thesis by (cases "normalizeDevice ?dev") simp
qed

subsection \<open>One entry per address\<close>

text \<open>
  C7: no two entries of the list that \<open>discover\<close> resolves with have the same address,
  whatever the events and whichever callback resolves.
\<close>

theorem discover_addresses_distinct:
  "discover maxDevices es = Resolved ds \<Longrightarrow> distinct (map n_ip ds)"
  unfolding discover_def by (rule run_distinct [of "[]"]) (simp_all add: map_inv_def)

theorem discover_addresses_distinct_witness:
  "discover 2
     [Response \<lparr> answers = Some [\<lparr> rname = Some ''tv'', rtype = ''A'', rdata = Some ''10.0.0.1'' \<rparr>,
                                  \<lparr> rname = Some ''pc'', rtype = ''A'', rdata = Some ''10.0.0.2'' \<rparr>,
                                  \<lparr> rname = Some ''tv2'', rtype = ''A'', rdata = Some ''10.0.0.1'' \<rparr>],
                  additionals = None \<rparr>,
      Timeout]
   = Resolved
       [\<lparr> n_ip = Some ''10.0.0.1'', n_name = ''tv'', n_port = 8060, n_type = ''roku'',
           n_url = ''http://10.0.0.1:8060'' \<rparr>,
        \<lparr> n_ip = Some ''10.0.0.2'', n_name = ''pc'', n_port = 8060, n_type = ''roku'',
           n_url = ''http://10.0.0.2:8060'' \<rparr>]
   \<and> distinct [Some ''10.0.0.1'', Some ''10.0.0.2'']"
proof -
  have h: "discover 2
     [Response \<lparr> answers = Some [\<lparr> rname = Some ''tv'', rtype = ''A'', rdata = Some ''10.0.0.1'' \<rparr>,
                                  \<lparr> rname = Some ''pc'', rtype = ''A'', rdata = Some ''10.0.0.2'' \<rparr>,
                                  \<lparr> rname = Some ''tv2'', rtype = ''A'', rdata = Some ''10.0.0.1'' \<rparr>],
                  additionals = None \<rparr>,
      Timeout]
   = Resolved
       [\<lparr> n_ip = Some ''10.0.0.1'', n_name = ''tv'', n_port = 8060, n_type = ''roku'',
           n_url = ''http://10.0.0.1:8060'' \<rparr>,
        \<lparr> n_ip = Some ''10.0.0.2'', n_name = ''pc'', n_port = 8060, n_type = ''roku'',
           n_url = ''http://10.0.0.2:8060'' \<rparr>]"
    by (simp add: eval_defs string_of_int_8060)
  from discover_addresses_distinct [OF h] h show ?thesis by simp
qed

section \<open>Properties of RokuService\<close>

subsection \<open>Text entry\<close>

lemmas encode_eval = uri_unreserved_def utf8_octets_def percent_octet_def hex_digit_def char_of_def bit_0

lemma encode_a_b: "encodeURIComponent (utf16_of_string ''a b'') = Inr ''a%20b''"
  by (simp add: encodeURIComponent_def utf16_of_string_def encode_eval)

lemma encode_units_total:
  "list_all (\<lambda>c. c < 55296 \<or> 57343 < c) cs \<Longrightarrow> \<exists>out. encode_units cs = Inr out"
  by (induction cs) (auto split: sum.splits)

lemma snd_makeRequest:
  "snd (makeRequest ax meth u dat sent)
     = sent @ [\<lparr> http_method = meth, url = u, timeout = 5000,
                  body = (if truthy_str dat then dat else None) \<rparr>]"
  by (simp add: makeRequest_def Let_def)

lemma text_cmd_sent:
  "encodeURIComponent s = Inr enc \<Longrightarrow>
     snd (text_cmd ax ip s sent)
        = sent @ [\<lparr> http_method = ''POST'',
                     url = ''http://'' @ (if str_includes ip '':'' then ip else ip @ '':8060'')
                           @ ''/keypress/Lit_'' @ enc,
                     timeout = 5000, body = None \<rparr>]"
  by (simp add: text_cmd_def snd_makeRequest buildUrl_def truthy_str_def)

text \<open>
  C8: a text-entry command sends one request whose path is \<open>/keypress/Lit_\<close> followed by
  the URL-encoding of the text, to the device's address (port 8060 unless the address
  names one). The encoding exists for every text without surrogate code units; where it
  does not exist, the built-in throws and nothing is sent. The text \<open>a b\<close> goes out as
  \<open>Lit_a%20b\<close>.
\<close>

theorem text_cmd_request:
  "(encodeURIComponent s = Inr enc \<longrightarrow>
      snd (text_cmd ax ip s sent)
        = sent @ [\<lparr> http_method = ''POST'',
                     url = ''http://'' @ (if str_includes ip '':'' then ip else ip @ '':8060'')
                           @ ''/keypress/Lit_'' @ enc,
                     timeout = 5000, body = None \<rparr>])
   \<and> (encodeURIComponent s = Inl err \<longrightarrow> text_cmd ax ip s sent = (Inl err, sent))
   \<and> (list_all (\<lambda>u. unat u < 55296 \<or> 57343 < unat u) s \<longrightarrow>
        (\<exists>enc. encodeURIComponent s = Inr enc))
   \<and> encodeURIComponent (utf16_of_string ''a b'') = Inr ''a%20b''
   \<and> snd (text_cmd ax ''10.0.0.5'' (utf16_of_string ''a b'') [])
       = [\<lparr> http_method = ''POST'', url = ''http://10.0.0.5:8060/keypress/Lit_a%20b'',
            timeout = 5000, body = None \<rparr>]"
proof -
  have thrown: "text_cmd ax ip s sent = (Inl err, sent)" if "encodeURIComponent s = Inl err"
    using that by (simp add: text_cmd_def)
  have total: "\<exists>enc. encodeURIComponent s = Inr enc"
    if "list_all (\<lambda>u. unat u < 55296 \<or> 57343 < unat u) s"
    unfolding encodeURIComponent_def
    using that by (intro encode_units_total) (simp add: list_all_iff)
  have example: "snd (text_cmd ax ''10.0.0.5'' (utf16_of_string ''a b'') [])
       = [\<lparr> http_method = ''POST'', url = ''http://10.0.0.5:8060/keypress/Lit_a%20b'',
            timeout = 5000, body = None \<rparr>]"
    using text_cmd_sent [OF encode_a_b, of ax "''10.0.0.5''" "[]"] by (simp add: starts_with_def)
  show ?thesis
    using text_cmd_sent [of s enc ax ip sent] thrown total encode_a_b example
    by (intro conjI impI) assumption+
qed

theorem text_cmd_request_witness:
  "snd (text_cmd (\<lambda>r. Reply 200 ''OK'' '''') ''10.0.0.5:8061'' [0x68, 0xE9] [])
       = [\<lparr> http_method = ''POST'', url = ''http://10.0.0.5:8061/keypress/Lit_h%C3%A9'',
            timeout = 5000, body = None \<rparr>]
   \<and> text_cmd (\<lambda>r. Reply 200 ''OK'' '''') ''10.0.0.5'' [0x61, 0xD83D] [] = (Inl URIError, [])"
proof -
  have 1: "encodeURIComponent [0x68, 0xE9] = Inr ''h%C3%A9''"
    by (simp add: encodeURIComponent_def encode_eval)
  have 2: "encodeURIComponent [0x61, 0xD83D] = Inl URIError"
    by (simp add: encodeURIComponent_def encode_eval)
  have 3: "str_includes ''10.0.0.5:8061'' '':''" by (simp add: starts_with_def)
  from 1 2 3
    text_cmd_request [of "[0x68, 0xE9]" "''h%C3%A9''" "\<lambda>r. Reply 200 ''OK'' ''''" "''10.0.0.5:8061''" "[]"]
    text_cmd_request [of "[0x61, 0xD83D]" _ "\<lambda>r. Reply 200 ''OK'' ''''" "''10.0.0.5''" "[]" URIError]
  show ?thesis by simp
qed

subsection \<open>The media query\<close>

lemma string_of_int_404: "string_of_int 404 = ''404''"
  by (simp add: string_of_int_def string_of_nat.simps digit_char_def)

lemma fst_makeRequest_Reply:
  "ax \<lparr> http_method = meth, url = u, timeout = 5000, body = (if truthy_str dat then dat else None) \<rparr>
     = Reply st stx d \<Longrightarrow>
   fst (makeRequest ax meth u dat sent)
     = (if 400 \<le> st
        then Inl \<lparr> code = None, message = ''Roku API error: '' @ string_of_int st @ '' '' @ stx \<rparr>
        else Inr d)"
  by (simp add: makeRequest_def Let_def)

lemma fst_makeRequest_Failure:
  "ax \<lparr> http_method = meth, url = u, timeout = 5000, body = (if truthy_str dat then dat else None) \<rparr>
     = Failure err \<Longrightarrow>
   \<exists>e. fst (makeRequest ax meth u dat sent) = Inl e"
  by (simp add: makeRequest_def Let_def)

lemma getMediaPlayer_cases:
  "fst (getMediaPlayer ax ps ip sent)
     = (case fst (makeRequest ax ''GET'' (buildUrl ip ''/query/media-search'') None sent) of
          Inl e \<Rightarrow> Inr (Unavailable (Some (message e)))
        | Inr xml \<Rightarrow> Inr (parseMediaXml ps xml))"
  by (simp add: getMediaPlayer_def split: prod.splits sum.splits)

text \<open>
  C9: a media-state query never fails. Whatever error \<open>_makeRequest\<close> throws, the
  query returns the record \<open>{available: false, error: <message>}\<close> with the message of
  that error; this covers a reply with any status of 400 or more, 404 among them, and a
  failure to get a reply at all.
\<close>

theorem getMediaPlayer_soft_failure:
  "fst (getMediaPlayer ax ps ip sent) \<noteq> Inl err
   \<and> (fst (makeRequest ax ''GET'' (buildUrl ip ''/query/media-search'') None sent) = Inl e \<longrightarrow>
        fst (getMediaPlayer ax ps ip sent) = Inr (Unavailable (Some (message e))))
   \<and> (ax \<lparr> http_method = ''GET'', url = buildUrl ip ''/query/media-search'', timeout = 5000, body = None \<rparr>
          = Reply st stx d \<and> 400 \<le> st \<longrightarrow>
        fst (getMediaPlayer ax ps ip sent)
          = Inr (Unavailable (Some (''Roku API error: '' @ string_of_int st @ '' '' @ stx))))
   \<and> (ax \<lparr> http_method = ''GET'', url = buildUrl ip ''/query/media-search'', timeout = 5000, body = None \<rparr>
          = Failure f \<longrightarrow>
        (\<exists>msg. fst (getMediaPlayer ax ps ip sent) = Inr (Unavailable (Some msg))))
   \<and> fst (getMediaPlayer (\<lambda>r. Reply 404 ''Not Found'' d) ps ip sent)
       = Inr (Unavailable (Some ''Roku API error: 404 Not Found''))"
proof -
  let ?req = "\<lparr> http_method = ''GET'', url = buildUrl ip ''/query/media-search'', timeout = 5000,
                 body = None \<rparr>"
  have never: "fst (getMediaPlayer ax ps ip sent) \<noteq> Inl err"
    by (simp add: getMediaPlayer_cases split: sum.splits)
  have any: "fst (getMediaPlayer ax ps ip sent) = Inr (Unavailable (Some (message e)))"
    if "fst (makeRequest ax ''GET'' (buildUrl ip ''/query/media-search'') None sent) = Inl e"
    using that by (simp add: getMediaPlayer_cases)
  have status: "fst (getMediaPlayer ax ps ip sent)
          = Inr (Unavailable (Some (''Roku API error: '' @ string_of_int st @ '' '' @ stx)))"
    if "ax ?req = Reply st stx d \<and> 400 \<le> st"
    using that fst_makeRequest_Reply [of ax "''GET''" "buildUrl ip ''/query/media-search''" None st stx d sent]
    by (simp add: getMediaPlayer_cases truthy_str_def)
  have failure: "\<exists>msg. fst (getMediaPlayer ax ps ip sent) = Inr (Unavailable (Some msg))"
    if "ax ?req = Failure f"
    using that fst_makeRequest_Failure [of ax "''GET''" "buildUrl ip ''/query/media-search''" None f sent]
    by (auto simp: getMediaPlayer_cases truthy_str_def)
  have example: "fst (getMediaPlayer (\<lambda>r. Reply 404 ''Not Found'' d) ps ip sent)
       = Inr (Unavailable (Some ''Roku API error: 404 Not Found''))"
    using fst_makeRequest_Reply [of "\<lambda>r. Reply 404 ''Not Found'' d" "''GET''"
        "buildUrl ip ''/query/media-search''" None 404 "''Not Found''" d sent]
    by (simp add: getMediaPlayer_cases string_of_int_404)
  show ?thesis
    using never any status failure example by (intro conjI impI) assumption+
qed

theorem getMediaPlayer_soft_failure_witness:
  "getMediaPlayer
     (\<lambda>r. Failure \<lparr> code = Some ''ECONNREFUSED'', message = ''connect ECONNREFUSED'' \<rparr>)
     (\<lambda>x. Inr JNull) ''10.0.0.5'' []
   = (Inr (Unavailable (Some (''Cannot connect to Roku device at http://10.0.0.5:8060/query/media-search''
           @ ''. Check IP address and that device is powered on.''))),
      [\<lparr> http_method = ''GET'', url = ''http://10.0.0.5:8060/query/media-search'', timeout = 5000,
          body = None \<rparr>])
   \<and> fst (getMediaPlayer (\<lambda>r. Reply 500 ''Internal Server Error'' '''') (\<lambda>x. Inr JNull) ''10.0.0.5'' [])
       = Inr (Unavailable (Some (''Roku API error: '' @ string_of_int 500 @ '' Internal Server Error'')))"
proof -
  let ?ax = "\<lambda>r::request. Failure \<lparr> code = Some ''ECONNREFUSED'', message = ''connect ECONNREFUSED'' \<rparr>"
  let ?e = "\<lparr> code = None, message = ''Cannot connect to Roku device at http://10.0.0.5:8060/query/media-search''
           @ ''. Check IP address and that device is powered on.'' \<rparr>"
  have 1: "makeRequest ?ax ''GET'' (buildUrl ''10.0.0.5'' ''/query/media-search'') None []
       = (Inl ?e, [\<lparr> http_method = ''GET'', url = ''http://10.0.0.5:8060/query/media-search'',
                       timeout = 5000, body = None \<rparr>])"
    by (simp add: makeRequest_def buildUrl_def starts_with_def truthy_str_def Let_def)
  have 2: "snd (getMediaPlayer ?ax (\<lambda>x. Inr JNull) ''10.0.0.5'' [])
       = [\<lparr> http_method = ''GET'', url = ''http://10.0.0.5:8060/query/media-search'',
                       timeout = 5000, body = None \<rparr>]"
    by (simp add: getMediaPlayer_def 1)
  have 3: "(\<lambda>r::request. Reply 500 ''Internal Server Error'' '''')
             \<lparr> http_method = ''GET'', url = buildUrl ''10.0.0.5'' ''/query/media-search'', timeout = 5000,
               body = None \<rparr> = Reply 500 ''Internal Server Error'' '''' \<and> (400::int) \<le> 500"
    by simp
  from 1 getMediaPlayer_soft_failure [of ?ax "\<lambda>x. Inr JNull" "''10.0.0.5''" "[]" _ ?e]
  have "fst (getMediaPlayer ?ax (\<lambda>x. Inr JNull) ''10.0.0.5'' []) = Inr (Unavailable (Some (message ?e)))"
    by simp
  moreover from 3 getMediaPlayer_soft_failure [of "\<lambda>r. Reply 500 ''Internal Server Error'' ''''"
      "\<lambda>x. Inr JNull" "''10.0.0.5''" "[]" _ _ 500 "''Internal Server Error''" "''''"]
  have "fst (getMediaPlayer (\<lambda>r. Reply 500 ''Internal Server Error'' '''') (\<lambda>x. Inr JNull) ''10.0.0.5'' [])
       = Inr (Unavailable (Some (''Roku API error: '' @ string_of_int 500 @ '' Internal Server Error'')))"
    by simp
  ultimately show ?thesis using 2 by (simp add: prod_eq_iff)
qed

subsection \<open>The list of apps\<close>

lemma getApps_cases:
  "fst (getApps ax ps ip sent)
     = (case fst (makeRequest ax ''GET'' (buildUrl ip ''/query/apps'') None sent) of
          Inl e \<Rightarrow> Inl e
        | Inr xml \<Rightarrow> Inr (parseAppsXml ps xml))"
  by (simp add: getApps_def split: prod.splits sum.splits)

lemma parseAppsXml_parse_error: "ps xml = Inl err \<Longrightarrow> parseAppsXml ps xml = []"
  by (simp add: parseAppsXml_def parseAppsXml_try_def and_then_def)

lemma parseAppsXml_no_array:
  assumes "ps xml = Inr parsed" and "\<forall>entries. apps_field parsed \<noteq> Inr (JArray entries)"
  shows "parseAppsXml ps xml = []"
proof (cases "apps_field parsed")
  case (Inl e)
  with assms(1) show ?thesis
    by (simp add: parseAppsXml_def parseAppsXml_try_def and_then_def)
next
  case (Inr found)
  with assms(2) have "\<forall>entries. found \<noteq> JArray entries" by simp
  then have "(case (if truthy found then found else JArray []) of
                JArray entries \<Rightarrow> map_throwing apps_entry entries | _ \<Rightarrow> Inr []) = Inr []"
    by (cases found) simp_all
  with assms(1) Inr show ?thesis
    by (simp add: parseAppsXml_def parseAppsXml_try_def and_then_def Let_def)
qed

text \<open>
  C10, as stated: whenever the reply to the apps query cannot be parsed, \<open>getApps\<close>
  returns the empty list and raises nothing. It does not when the unparsable reply comes
  with a status of 400 or more: \<open>_makeRequest\<close> throws before the parser is reached, and
  \<open>getApps\<close> has no handler around it.
\<close>

theorem getApps_unparsable_404_counterexample:
  "rejecting_parser ''not xml''
     = Inl \<lparr> code = None, message = ''Non-whitespace before first tag.'' \<rparr>
   \<and> fst (getApps not_found_client rejecting_parser ''10.0.0.5'' [])
     = Inl \<lparr> code = None, message = ''Roku API error: 404 Not Found'' \<rparr>"
  by (simp add: getApps_cases makeRequest_def not_found_client_def rejecting_parser_def
      string_of_int_404)

text \<open>
  C10, amended: when the reply to the apps query has a status below 400 and cannot be
  parsed, or its parsed form has no array under \<open>apps.app\<close>, \<open>getApps\<close> returns the
  empty list and raises nothing.
\<close>

theorem getApps_unparsable_empty:
  "ax \<lparr> http_method = ''GET'', url = buildUrl ip ''/query/apps'', timeout = 5000, body = None \<rparr>
     = Reply st stx xml \<Longrightarrow> st < 400 \<Longrightarrow>
     (ps xml = Inl err \<longrightarrow> fst (getApps ax ps ip sent) = Inr [])
     \<and> (ps xml = Inr parsed \<and> (\<forall>entries. apps_field parsed \<noteq> Inr (JArray entries))
          \<longrightarrow> fst (getApps ax ps ip sent) = Inr [])"
proof -
  assume "ax \<lparr> http_method = ''GET'', url = buildUrl ip ''/query/apps'', timeout = 5000, body = None \<rparr>
     = Reply st stx xml" and "st < 400"
  then have "fst (makeRequest ax ''GET'' (buildUrl ip ''/query/apps'') None sent) = Inr xml"
    using fst_makeRequest_Reply [of ax "''GET''" "buildUrl ip ''/query/apps''" None st stx xml sent]
    by (simp add: truthy_str_def)
  then show ?thesis
    by (simp add: getApps_cases parseAppsXml_parse_error parseAppsXml_no_array)
qed

theorem getApps_unparsable_empty_witness:
  "fst (getApps (\<lambda>r. Reply 200 ''OK'' ''not xml'') rejecting_parser ''10.0.0.5'' []) = Inr []
   \<and> fst (getApps (\<lambda>r. Reply 200 ''OK'' ''<apps/>'')
          (\<lambda>x. Inr (JObject [(''apps'', JString [])])) ''10.0.0.5'' []) = Inr []
   \<and> fst (getApps (\<lambda>r. Reply 200 ''OK'' []) (\<lambda>x. Inr JNull) ''10.0.0.5'' []) = Inr []"
proof -
  let ?doc = "JObject [(''apps'', JString [])]"
  let ?empty = "[] :: string"
  have s: "(200::int) < 400" by simp
  have p: "rejecting_parser ''not xml''
             = Inl \<lparr> code = None, message = ''Non-whitespace before first tag.'' \<rparr>"
    by (simp add: rejecting_parser_def)
  have a: "\<forall>entries. apps_field ?doc \<noteq> Inr (JArray entries)"
    by (simp add: apps_field_def and_then_def get_prop_opt_def)
  have b: "\<forall>entries. apps_field JNull \<noteq> Inr (JArray entries)"
    by (simp add: apps_field_def and_then_def)
  from s p a b
    getApps_unparsable_empty [of "\<lambda>r. Reply 200 ''OK'' ''not xml''" "''10.0.0.5''" 200 "''OK''"
        "''not xml''" rejecting_parser
        "\<lparr> code = None, message = ''Non-whitespace before first tag.'' \<rparr>" "[]"]
    getApps_unparsable_empty [of "\<lambda>r. Reply 200 ''OK'' ''<apps/>''" "''10.0.0.5''" 200 "''OK''"
        "''<apps/>''" "\<lambda>x. Inr ?doc" _ "[]" ?doc]
    getApps_unparsable_empty [of "\<lambda>r. Reply 200 ''OK'' ?empty" "''10.0.0.5''" 200 "''OK''"
        ?empty "\<lambda>x. Inr JNull" _ "[]" JNull]
  show ?thesis by simp
qed

lemmas xml_eval = parseAppsXml_def parseAppsXml_try_def apps_field_def apps_entry_def
  parseActiveAppXml_def parseActiveAppXml_try_def and_then_def get_prop_opt_def Let_def

text \<open>
  C4: each record of the apps list takes its \<open>name\<close> from the entry's text content. The
  code takes it from the \<open>version\<close> attribute whenever the entry has one, and from the
  text content only otherwise: the entry \<open>Netflix\<close> with version \<open>4.1.218\<close> comes back
  named \<open>4.1.218\<close>. The parser of the active app, on the same entry, takes the text
  content.
\<close>

theorem parseAppsXml_name_from_version:
  "parseAppsXml
     (\<lambda>x. Inr (JObject [(''apps'', JObject [(''app'', JArray
        [JObject [(''_'', JString ''Netflix''),
                  (''$'', JObject [(''id'', JString ''12''), (''type'', JString ''appl''),
                                   (''version'', JString ''4.1.218'')])]])])])) xml
   = [\<lparr> app_id = JString ''12'', app_name = JString ''4.1.218'', app_type = JString ''appl'',
        app_version = JString ''4.1.218'' \<rparr>]
   \<and> fst (getApps (\<lambda>r. Reply 200 ''OK'' xml)
     (\<lambda>x. Inr (JObject [(''apps'', JObject [(''app'', JArray
        [JObject [(''_'', JString ''Netflix''),
                  (''$'', JObject [(''id'', JString ''12''), (''type'', JString ''appl''),
                                   (''version'', JString ''4.1.218'')])]])])])) ip sent)
   = Inr [\<lparr> app_id = JString ''12'', app_name = JString ''4.1.218'', app_type = JString ''appl'',
        app_version = JString ''4.1.218'' \<rparr>]
   \<and> parseActiveAppXml
     (\<lambda>x. Inr (JObject [(''active-app'', JObject [(''app'', JArray
        [JObject [(''_'', JString ''Netflix''),
                  (''$'', JObject [(''id'', JString ''12''), (''type'', JString ''appl''),
                                   (''version'', JString ''4.1.218'')])]])])])) xml
   = Some \<lparr> app_id = JString ''12'', app_name = JString ''Netflix'', app_type = JString ''appl'',
        app_version = JString ''4.1.218'' \<rparr>"
  by (simp add: getApps_cases makeRequest_def xml_eval)

end
